theory Spec2Isabelle
  imports Main "HOL-Library.Word"
begin

unbundle bit_operations_syntax

section \<open>Python values and builtins used by \<^verbatim>\<open>tracker.py\<close>\<close>

text \<open>
  Header values reach a WSGI application as Latin-1 decoded text, so every character of
  the \<^verbatim>\<open>User-Agent\<close> and \<^verbatim>\<open>X-Forwarded-For\<close> values is one code point below 256: a
  \<^typ>\<open>char\<close>. The builtins \<^verbatim>\<open>str.lower\<close>, \<^verbatim>\<open>str.isspace\<close>, \<^verbatim>\<open>in\<close>, \<^verbatim>\<open>str.split\<close> and
  \<^verbatim>\<open>str.strip\<close> are written out on such strings.
\<close>

definition py_lower_char :: "char \<Rightarrow> char" where
  \<comment> \<open>\<^verbatim>\<open>A-Z\<close> and the Latin-1 capitals \<^verbatim>\<open>0xC0-0xDE\<close> (without the sign \<^verbatim>\<open>0xD7\<close>) move up by 32.\<close>
  "py_lower_char c =
     (let n = of_char c :: nat
      in if (65 \<le> n \<and> n \<le> 90) \<or> (192 \<le> n \<and> n \<le> 222 \<and> n \<noteq> 215)
         then char_of (n + 32) else c)"

definition py_lower :: "string \<Rightarrow> string" where
  "py_lower s = map py_lower_char s"

definition py_isspace :: "char \<Rightarrow> bool" where
  \<comment> \<open>the code points below 256 for which \<^verbatim>\<open>str.isspace\<close> holds\<close>
  "py_isspace c =
     (let n = of_char c :: nat
      in (9 \<le> n \<and> n \<le> 13) \<or> (28 \<le> n \<and> n \<le> 32) \<or> n = 133 \<or> n = 160)"

fun starts_with :: "string \<Rightarrow> string \<Rightarrow> bool" where
  "starts_with s [] = True"
| "starts_with [] (p # ps) = False"
| "starts_with (c # cs) (p # ps) = (c = p \<and> starts_with cs ps)"

fun py_in :: "string \<Rightarrow> string \<Rightarrow> bool" where
  \<comment> \<open>\<^verbatim>\<open>sub in s\<close>\<close>
  "py_in sub [] = (sub = [])"
| "py_in sub (c # cs) = (starts_with (c # cs) sub \<or> py_in sub cs)"

fun py_split :: "char \<Rightarrow> string \<Rightarrow> string list" where
  \<comment> \<open>\<^verbatim>\<open>s.split(sep)\<close> for a separator of one character; the result is never empty\<close>
  "py_split sep [] = [[]]"
| "py_split sep (c # cs) =
     (if c = sep then [] # py_split sep cs
      else (case py_split sep cs of
              w # ws \<Rightarrow> (c # w) # ws
            | [] \<Rightarrow> [[c]]))"

definition py_strip :: "string \<Rightarrow> string" where
  \<comment> \<open>\<^verbatim>\<open>s.strip()\<close>: white space removed at both ends\<close>
  "py_strip s = rev (dropWhile py_isspace (rev (dropWhile py_isspace s)))"

definition py_or :: "string option \<Rightarrow> string \<Rightarrow> string" where
  \<comment> \<open>\<^verbatim>\<open>x or d\<close> for an optional string: \<^verbatim>\<open>None\<close> and \<^verbatim>\<open>""\<close> are falsy\<close>
  "py_or x d = (case x of None \<Rightarrow> d | Some s \<Rightarrow> if s = [] then d else s)"

text \<open>
  A Python float is an IEEE 754 double: 64 bits. It is finite when its exponent field is
  not all ones.
\<close>

type_synonym pyfloat = "64 word"

definition is_finite :: "pyfloat \<Rightarrow> bool" where
  "is_finite f = (drop_bit 52 f AND 0x7FF \<noteq> 0x7FF)"

text \<open>The values a decoded JSON document holds; the geo lookup answers with such a document.\<close>

datatype pyval =
    PNone
  | PBool bool
  | PInt int
  | PFloat pyfloat
  | PStr string
  | PList "pyval list"
  | PDict "(string \<times> pyval) list"

datatype py_error = TypeError | ValueError | OverflowError | StorageError

text \<open>
  The conversions of the interpreter that the handlers call are parameters: \<^verbatim>\<open>float(int)\<close>
  (correctly rounded, \<^verbatim>\<open>OverflowError\<close> beyond the range of a double), \<^verbatim>\<open>float(str)\<close>
  (\<^verbatim>\<open>ValueError\<close> on text that is no float literal) and the formatting of a float inside an
  f-string.
\<close>

record float_ops =
  float_of_int :: "int \<Rightarrow> pyfloat option"
  float_of_str :: "string \<Rightarrow> pyfloat option"
  format_float :: "pyfloat \<Rightarrow> string"

definition isinstance_int_float :: "pyval \<Rightarrow> bool" where
  \<comment> \<open>\<^verbatim>\<open>isinstance(v, (int, float))\<close>; \<^verbatim>\<open>bool\<close> is a subclass of \<^verbatim>\<open>int\<close>\<close>
  "isinstance_int_float v =
     (case v of PBool _ \<Rightarrow> True | PInt _ \<Rightarrow> True | PFloat _ \<Rightarrow> True | _ \<Rightarrow> False)"

definition py_float :: "float_ops \<Rightarrow> pyval \<Rightarrow> py_error + pyfloat" where
  \<comment> \<open>\<^verbatim>\<open>float(v)\<close>\<close>
  "py_float ops v =
     (case v of
        PNone \<Rightarrow> Inl TypeError
      | PBool b \<Rightarrow>
          (case float_of_int ops (if b then 1 else 0) of
             None \<Rightarrow> Inl OverflowError | Some f \<Rightarrow> Inr f)
      | PInt i \<Rightarrow>
          (case float_of_int ops i of None \<Rightarrow> Inl OverflowError | Some f \<Rightarrow> Inr f)
      | PFloat f \<Rightarrow> Inr f
      | PStr s \<Rightarrow>
          (case float_of_str ops s of None \<Rightarrow> Inl ValueError | Some f \<Rightarrow> Inr f)
      | PList _ \<Rightarrow> Inl TypeError
      | PDict _ \<Rightarrow> Inl TypeError)"

definition dict_get :: "(string \<rightharpoonup> pyval) \<Rightarrow> string \<Rightarrow> pyval" where
  \<comment> \<open>\<^verbatim>\<open>d.get(k)\<close>: \<^verbatim>\<open>None\<close> for a missing key\<close>
  "dict_get d k = (case d k of None \<Rightarrow> PNone | Some v \<Rightarrow> v)"

section \<open>\<^verbatim>\<open>_parse_user_agent\<close>\<close>

record ua_info =
  ua_browser :: string
  ua_os :: string

definition parse_user_agent :: "string option \<Rightarrow> ua_info" where
  "parse_user_agent ua =
     (case ua of
        None \<Rightarrow> \<lparr>ua_browser = ''Unknown'', ua_os = ''Unknown''\<rparr>
      | Some u \<Rightarrow>
          if u = [] then \<lparr>ua_browser = ''Unknown'', ua_os = ''Unknown''\<rparr>
          else
            let ua_lower = py_lower u;
                browser =
                  (if py_in ''edg'' ua_lower then ''Edge''
                   else if py_in ''opr'' ua_lower \<or> py_in ''opera'' ua_lower then ''Opera''
                   else if py_in ''chrome'' ua_lower \<and> py_in ''safari'' ua_lower
                           \<and> \<not> py_in ''edge'' ua_lower then ''Chrome''
                   else if py_in ''firefox'' ua_lower then ''Firefox''
                   else if py_in ''safari'' ua_lower \<and> \<not> py_in ''chrome'' ua_lower
                     then ''Safari''
                   else ''Other'');
                os =
                  (if py_in ''windows'' ua_lower then ''Windows''
                   else if py_in ''android'' ua_lower then ''Android''
                   else if py_in ''iphone'' ua_lower \<or> py_in ''ipad'' ua_lower
                           \<or> py_in ''ios'' ua_lower then ''iOS''
                   else if py_in ''mac os x'' ua_lower \<or> py_in ''macintosh'' ua_lower
                     then ''macOS''
                   else if py_in ''linux'' ua_lower then ''Linux''
                   else ''Other'')
            in \<lparr>ua_browser = browser, ua_os = os\<rparr>)"

section \<open>Requests, configuration and collaborators\<close>

record request =
  x_forwarded_for :: "string option"  \<comment> \<open>\<^verbatim>\<open>request.headers.get("X-Forwarded-For")\<close>\<close>
  remote_addr :: "string option"      \<comment> \<open>\<^verbatim>\<open>request.remote_addr\<close>\<close>
  user_agent_header :: "string option" \<comment> \<open>\<^verbatim>\<open>request.headers.get("User-Agent")\<close>\<close>
  arg_next :: "string option"         \<comment> \<open>\<^verbatim>\<open>request.args.get("next")\<close>\<close>
  arg_src :: "string option"          \<comment> \<open>\<^verbatim>\<open>request.args.get("src")\<close>\<close>

record config =
  visits_path :: string
  ip_api :: string
  default_target :: string

record visit =
  time :: string
  ip :: "string option"
  country :: pyval
  region :: pyval
  city :: pyval
  lat :: pyval
  lon :: pyval
  isp :: pyval
  token :: string
  user_agent :: "string option"
  browser :: string
  os :: string
  google_maps_url :: "string option"

text \<open>
  Modelled from the spec: the modules \<^verbatim>\<open>geo\<close> and \<^verbatim>\<open>storage\<close> are imported by
  \<^verbatim>\<open>tracker.py\<close> and are not part of the sources. The spec gives their contracts:
  \<^verbatim>\<open>geo_lookup(ip, endpoint)\<close> answers with a mapping or with nothing on failure;
  \<^verbatim>\<open>load_visits(path)\<close> answers with the sequence saved last, in order;
  \<^verbatim>\<open>save_visits(path, visits)\<close> overwrites the whole collection; a failing load or save
  raises and the request aborts. What the outside world decides during one request is
  collected in an environment: the answer of the geo service, the reading of the clock
  (\<^verbatim>\<open>datetime.now(timezone.utc).isoformat()\<close>) and whether the storage operations succeed.
\<close>

record environment =
  geo_lookup :: "string option \<Rightarrow> string \<Rightarrow> (string \<rightharpoonup> pyval) option"
  utc_now_isoformat :: string
  load_succeeds :: bool
  save_succeeds :: bool

type_synonym storage = "string \<Rightarrow> visit list"

definition load_visits :: "environment \<Rightarrow> storage \<Rightarrow> string \<Rightarrow> py_error + visit list" where
  "load_visits env st path = (if load_succeeds env then Inr (st path) else Inl StorageError)"

definition save_visits ::
    "environment \<Rightarrow> storage \<Rightarrow> string \<Rightarrow> visit list \<Rightarrow> py_error + storage" where
  "save_visits env st path visits =
     (if save_succeeds env then Inr (st(path := visits)) else Inl StorageError)"

datatype response =
    Redirect string                 \<comment> \<open>the response \<^verbatim>\<open>redirect(target_url)\<close> returns\<close>
  | RenderTemplate string string    \<comment> \<open>\<^verbatim>\<open>render_template(name, image_url=...)\<close>\<close>

text \<open>
  \<^verbatim>\<open>redirect\<close> is the function of Flask and werkzeug. It builds the response and puts the
  target into its \<^verbatim>\<open>Location\<close> header; a header value that holds a carriage return or a
  line feed is refused there with \<^verbatim>\<open>ValueError\<close>. The handler calls it on the target as
  it came, so that error is an outcome of the handler.
\<close>

definition redirect :: "string \<Rightarrow> py_error + response" where
  "redirect location =
     (if CHR 0x0D \<in> set location \<or> CHR 0x0A \<in> set location then Inl ValueError
      else Inr (Redirect location))"

section \<open>The two tracking endpoints\<close>

text \<open>
  Each handler is split at the point where the record is complete: the first definition
  builds the record (lines 67-103 and 130-164), the second one stores it and answers
  (lines 105-110 and 166-171). The two handlers are kept as the two copies the source has.
  The index \<^verbatim>\<open>[0]\<close> into the result of \<^verbatim>\<open>split\<close> is always in range, since \<^verbatim>\<open>split\<close>
  returns at least one piece (\<open>py_split_nonempty\<close> below); it is written \<^term>\<open>hd\<close>.

  The result of a handler is \<open>Inl e\<close> when the load or the save raised \<open>e\<close>, before
  the collection was written. Otherwise it is \<open>Inr (outcome, st')\<close>: the storage after the
  save, and the outcome of the return statement, which runs after the save: the response,
  or the error that \<^verbatim>\<open>redirect\<close> raised.
\<close>

definition track_click_record ::
    "float_ops \<Rightarrow> config \<Rightarrow> environment \<Rightarrow> string \<Rightarrow> request \<Rightarrow> visit" where
  "track_click_record ops cfg env tok req =
     (let ip0 = (case x_forwarded_for req of Some h \<Rightarrow> Some h | None \<Rightarrow> remote_addr req);
          ip1 = (case ip0 of
                   None \<Rightarrow> None
                 | Some s \<Rightarrow>
                     if s \<noteq> [] \<and> py_in '','' s
                     then Some (py_strip (hd (py_split (CHR '','') s)))
                     else Some s);
          geo = (case geo_lookup env ip1 (ip_api cfg) of None \<Rightarrow> Map.empty | Some g \<Rightarrow> g);
          lat0 = dict_get geo ''lat'';
          lon0 = dict_get geo ''lon'';
          url =
            (if isinstance_int_float lat0 \<or> isinstance_int_float lon0 then
               (case py_float ops lat0 of
                  Inl _ \<Rightarrow> None
                | Inr lat_f \<Rightarrow>
                    (case py_float ops lon0 of
                       Inl _ \<Rightarrow> None
                     | Inr lon_f \<Rightarrow>
                         Some (''https://www.google.com/maps?q='' @ format_float ops lat_f
                               @ '','' @ format_float ops lon_f)))
             else None);
          ua_raw = user_agent_header req;
          ua = parse_user_agent ua_raw
      in \<lparr>time = utc_now_isoformat env,
          ip = ip1,
          country = dict_get geo ''country'',
          region = dict_get geo ''regionName'',
          city = dict_get geo ''city'',
          lat = lat0,
          lon = lon0,
          isp = dict_get geo ''isp'',
          token = tok,
          user_agent = ua_raw,
          browser = ua_browser ua,
          os = ua_os ua,
          google_maps_url = url\<rparr>)"

definition track_click ::
    "float_ops \<Rightarrow> config \<Rightarrow> environment \<Rightarrow> string \<Rightarrow> request \<Rightarrow> storage
       \<Rightarrow> py_error + ((py_error + response) \<times> storage)" where
  "track_click ops cfg env tok req st =
     (let rec = track_click_record ops cfg env tok req
      in case load_visits env st (visits_path cfg) of
           Inl e \<Rightarrow> Inl e
         | Inr visits \<Rightarrow>
             (case save_visits env st (visits_path cfg) (visits @ [rec]) of
                Inl e \<Rightarrow> Inl e
              | Inr st' \<Rightarrow>
                  let target_url = py_or (arg_next req) (default_target cfg)
                  in Inr (redirect target_url, st')))"

definition image_tracker_record ::
    "float_ops \<Rightarrow> config \<Rightarrow> environment \<Rightarrow> string \<Rightarrow> request \<Rightarrow> visit" where
  "image_tracker_record ops cfg env tok req =
     (let ip0 = (case x_forwarded_for req of Some h \<Rightarrow> Some h | None \<Rightarrow> remote_addr req);
          ip1 = (case ip0 of
                   None \<Rightarrow> None
                 | Some s \<Rightarrow>
                     if s \<noteq> [] \<and> py_in '','' s
                     then Some (py_strip (hd (py_split (CHR '','') s)))
                     else Some s);
          geo = (case geo_lookup env ip1 (ip_api cfg) of None \<Rightarrow> Map.empty | Some g \<Rightarrow> g);
          lat0 = dict_get geo ''lat'';
          lon0 = dict_get geo ''lon'';
          url =
            (if isinstance_int_float lat0 \<or> isinstance_int_float lon0 then
               (case py_float ops lat0 of
                  Inl _ \<Rightarrow> None
                | Inr lat_f \<Rightarrow>
                    (case py_float ops lon0 of
                       Inl _ \<Rightarrow> None
                     | Inr lon_f \<Rightarrow>
                         Some (''https://www.google.com/maps?q='' @ format_float ops lat_f
                               @ '','' @ format_float ops lon_f)))
             else None);
          ua_raw = user_agent_header req;
          ua = parse_user_agent ua_raw
      in \<lparr>time = utc_now_isoformat env,
          ip = ip1,
          country = dict_get geo ''country'',
          region = dict_get geo ''regionName'',
          city = dict_get geo ''city'',
          lat = lat0,
          lon = lon0,
          isp = dict_get geo ''isp'',
          token = tok,
          user_agent = ua_raw,
          browser = ua_browser ua,
          os = ua_os ua,
          google_maps_url = url\<rparr>)"

definition image_tracker ::
    "float_ops \<Rightarrow> config \<Rightarrow> environment \<Rightarrow> string \<Rightarrow> request \<Rightarrow> storage
       \<Rightarrow> py_error + ((py_error + response) \<times> storage)" where
  "image_tracker ops cfg env tok req st =
     (let rec = image_tracker_record ops cfg env tok req
      in case load_visits env st (visits_path cfg) of
           Inl e \<Rightarrow> Inl e
         | Inr visits \<Rightarrow>
             (case save_visits env st (visits_path cfg) (visits @ [rec]) of
                Inl e \<Rightarrow> Inl e
              | Inr st' \<Rightarrow>
                  let image_url =
                        py_or (arg_src req) ''https://via.placeholder.com/800x500.png?text=Image''
                  in Inr (Inr (RenderTemplate ''image_page.html'' image_url), st')))"

text \<open>
  The condition of the spec on a coordinate, in the spec's words: the value parses as a
  finite number, that is, \<^verbatim>\<open>float\<close> accepts it and the result is finite.
\<close>

definition parses_as_finite_number :: "float_ops \<Rightarrow> pyval \<Rightarrow> bool" where
  "parses_as_finite_number ops v =
     (case py_float ops v of Inl _ \<Rightarrow> False | Inr f \<Rightarrow> is_finite f)"

section \<open>Serving requests one after the other\<close>

text \<open>
  A hit is one request to one of the two endpoints, with the environment it meets. Hits
  served serially run one handler to its end before the next one starts; a handler
  whose load or save raises ends the run. A hit whose \<^verbatim>\<open>redirect\<close> raises has stored its
  record, and the run goes on from the storage it left.
\<close>

datatype endpoint = TrackClick | ImageTracker

record hit =
  hit_endpoint :: endpoint
  hit_env :: environment
  hit_token :: string
  hit_request :: request

definition hit_record :: "float_ops \<Rightarrow> config \<Rightarrow> hit \<Rightarrow> visit" where
  "hit_record ops cfg h =
     (case hit_endpoint h of
        TrackClick \<Rightarrow> track_click_record ops cfg (hit_env h) (hit_token h) (hit_request h)
      | ImageTracker \<Rightarrow> image_tracker_record ops cfg (hit_env h) (hit_token h) (hit_request h))"

definition serve ::
    "float_ops \<Rightarrow> config \<Rightarrow> hit \<Rightarrow> storage
       \<Rightarrow> py_error + ((py_error + response) \<times> storage)" where
  "serve ops cfg h st =
     (case hit_endpoint h of
        TrackClick \<Rightarrow> track_click ops cfg (hit_env h) (hit_token h) (hit_request h) st
      | ImageTracker \<Rightarrow> image_tracker ops cfg (hit_env h) (hit_token h) (hit_request h) st)"

fun serve_serially ::
    "float_ops \<Rightarrow> config \<Rightarrow> hit list \<Rightarrow> storage \<Rightarrow> py_error + storage" where
  "serve_serially ops cfg [] st = Inr st"
| "serve_serially ops cfg (h # hs) st =
     (case serve ops cfg h st of
        Inl e \<Rightarrow> Inl e
      | Inr (resp, st') \<Rightarrow> serve_serially ops cfg hs st')"

section \<open>Concrete data for the examples\<close>

text \<open>
  The three conversions on the few arguments the examples below use, with the results
  CPython gives there: \<^verbatim>\<open>float("48.85")\<close> and \<^verbatim>\<open>float("2.35")\<close> are the doubles
  \<^verbatim>\<open>0x40486CCCCCCCCCCD\<close> and \<^verbatim>\<open>0x4002CCCCCCCCCCCD\<close>, which print as \<^verbatim>\<open>48.85\<close> and
  \<^verbatim>\<open>2.35\<close>; \<^verbatim>\<open>float(1)\<close> is \<^verbatim>\<open>0x3FF0000000000000\<close> and prints as \<^verbatim>\<open>1.0\<close>; the quiet NaN
  \<^verbatim>\<open>0x7FF8000000000000\<close> prints as \<^verbatim>\<open>nan\<close>; \<^verbatim>\<open>float("n/a")\<close> raises. Arguments outside
  this table are answered with a failure or an empty text, and no example reaches them.
  The theorems about the handlers hold for every choice of the conversions.
\<close>

definition cpython_table :: float_ops where
  "cpython_table =
     \<lparr>float_of_int = (\<lambda>i. if i = 0 then Some 0 else if i = 1 then Some 0x3FF0000000000000
                           else None),
      float_of_str = (\<lambda>s. if s = ''48.85'' then Some 0x40486CCCCCCCCCCD
                           else if s = ''2.35'' then Some 0x4002CCCCCCCCCCCD
                           else None),
      format_float = (\<lambda>f. if f = 0x40486CCCCCCCCCCD then ''48.85''
                           else if f = 0x4002CCCCCCCCCCCD then ''2.35''
                           else if f = 0x3FF0000000000000 then ''1.0''
                           else if f = 0 then ''0.0''
                           else if f = 0x7FF8000000000000 then ''nan''
                           else [])\<rparr>"

definition demo_config :: config where
  "demo_config =
     \<lparr>visits_path = ''visits.json'',
      ip_api = ''http://ip-api.com/json/'',
      default_target = ''https://example.com''\<rparr>"

definition demo_request :: request where
  "demo_request =
     \<lparr>x_forwarded_for = Some ''203.0.113.5, 10.0.0.1'',
      remote_addr = Some ''10.0.0.1'',
      user_agent_header = Some ''curl/8.0'',
      arg_next = Some ''https://example.org/landing'',
      arg_src = None\<rparr>"

definition newline_request :: request where
  \<comment> \<open>the demo request with a line feed in its target: \<^verbatim>\<open>/t/tok?next=/a%0Ab\<close>\<close>
  "newline_request = demo_request\<lparr>arg_next := Some [CHR ''/'', CHR ''a'', CHR 0x0A, CHR ''b'']\<rparr>"

definition demo_env :: "(string \<rightharpoonup> pyval) option \<Rightarrow> environment" where
  \<comment> \<open>an environment in which the geo service answers \<open>g\<close> and the storage works\<close>
  "demo_env g =
     \<lparr>geo_lookup = (\<lambda>ip api. g),
      utc_now_isoformat = ''2024-01-01T00:00:00+00:00'',
      load_succeeds = True,
      save_succeeds = True\<rparr>"

definition no_visits :: storage where
  "no_visits = (\<lambda>path. [])"

definition demo_hit :: "endpoint \<Rightarrow> string \<Rightarrow> hit" where
  \<comment> \<open>the demo request sent to one endpoint under a token, with no geo answer\<close>
  "demo_hit e tok =
     \<lparr>hit_endpoint = e, hit_env = demo_env None, hit_token = tok,
      hit_request = demo_request\<rparr>"

section \<open>Facts about the string builtins\<close>

lemma starts_with_iff: "starts_with s p \<longleftrightarrow> (\<exists>r. s = p @ r)"
  by (induction s p rule: starts_with.induct) auto

lemma py_in_iff: "py_in sub s \<longleftrightarrow> (\<exists>pre post. s = pre @ sub @ post)"
proof (induction s)
  case Nil
  show ?case by auto
next
  case (Cons c cs)
  show ?case
  proof
    assume "py_in sub (c # cs)"
    then consider "starts_with (c # cs) sub" | "py_in sub cs" by auto
    then show "\<exists>pre post. c # cs = pre @ sub @ post"
    proof cases
      case 1
      then obtain r where "c # cs = sub @ r" by (auto simp: starts_with_iff)
      then have "c # cs = [] @ sub @ r" by simp
      then show ?thesis by blast
    next
      case 2
      with Cons obtain pre post where "cs = pre @ sub @ post" by blast
      then have "c # cs = (c # pre) @ sub @ post" by simp
      then show ?thesis by blast
    qed
  next
    assume "\<exists>pre post. c # cs = pre @ sub @ post"
    then obtain pre post where eq: "c # cs = pre @ sub @ post" by blast
    show "py_in sub (c # cs)"
    proof (cases pre)
      case Nil
      with eq have "starts_with (c # cs) sub" by (auto simp: starts_with_iff)
      then show ?thesis by simp
    next
      case (Cons p ps)
      with eq have "cs = ps @ sub @ post" by simp
      with Cons.IH have "py_in sub cs" by blast
      then show ?thesis by simp
    qed
  qed
qed

lemma py_in_comma: "py_in '','' s \<longleftrightarrow> CHR '','' \<in> set s"
  by (induction s) auto

lemma py_split_nonempty: "py_split sep s \<noteq> []"
  by (induction s) (auto split: list.splits)

lemma hd_py_split: "hd (py_split sep s) = takeWhile (\<lambda>c. c \<noteq> sep) s"
  using py_split_nonempty
  by (induction s) (auto split: list.splits)

lemma py_split_first_entry:
  "sep \<notin> set entry \<Longrightarrow> hd (py_split sep (entry @ sep # rest)) = entry"
  by (auto simp: hd_py_split takeWhile_tail)

lemma py_split_no_sep: "sep \<notin> set s \<Longrightarrow> py_split sep s = [s]"
  by (induction s) auto

lemma py_strip_decompose:
  "\<exists>l r. s = l @ py_strip s @ r \<and> (\<forall>c \<in> set l. py_isspace c) \<and> (\<forall>c \<in> set r. py_isspace c)"
proof -
  let ?t = "dropWhile py_isspace s"
  have 1: "s = takeWhile py_isspace s @ ?t" by simp
  have 2: "rev ?t = takeWhile py_isspace (rev ?t) @ dropWhile py_isspace (rev ?t)" by simp
  have "?t = rev (dropWhile py_isspace (rev ?t)) @ rev (takeWhile py_isspace (rev ?t))"
    by (metis 2 rev_append rev_rev_ident)
  then have 3: "?t = py_strip s @ rev (takeWhile py_isspace (rev ?t))"
    by (simp add: py_strip_def)
  have "s = takeWhile py_isspace s @ py_strip s @ rev (takeWhile py_isspace (rev ?t))"
    using 1 3 by metis
  moreover have "\<forall>c \<in> set (takeWhile py_isspace s). py_isspace c"
    by (auto dest: set_takeWhileD)
  moreover have "\<forall>c \<in> set (rev (takeWhile py_isspace (rev ?t))). py_isspace c"
    by (auto dest: set_takeWhileD)
  ultimately show ?thesis by blast
qed

lemma py_strip_ends:
  "py_strip s \<noteq> [] \<Longrightarrow> \<not> py_isspace (hd (py_strip s)) \<and> \<not> py_isspace (last (py_strip s))"
proof -
  assume ne: "py_strip s \<noteq> []"
  let ?t = "dropWhile py_isspace s"
  let ?u = "dropWhile py_isspace (rev ?t)"
  have u: "?u \<noteq> []" using ne by (simp add: py_strip_def)
  then have "\<not> py_isspace (hd ?u)" by (rule hd_dropWhile)
  then have l: "\<not> py_isspace (last (py_strip s))"
    using u by (simp add: py_strip_def last_rev)
  have t: "?t \<noteq> []"
  proof
    assume "?t = []"
    then have "?u = []" by (metis dropWhile.simps(1) rev.simps(1))
    with u show False by simp
  qed
  then have ht: "\<not> py_isspace (hd ?t)" by (rule hd_dropWhile)
  have "rev ?t = takeWhile py_isspace (rev ?t) @ ?u" by simp
  then have "?t = rev ?u @ rev (takeWhile py_isspace (rev ?t))"
    by (metis rev_append rev_rev_ident)
  then have "hd ?t = hd (rev ?u)" using u by (metis hd_append2 rev_is_Nil_conv)
  then show ?thesis using ht l by (simp add: py_strip_def)
qed

text \<open>The builtins on a few arguments, as CPython answers there.\<close>

lemma py_split_examples:
  "py_split (CHR '','') ''a,b,,c'' = [''a'', ''b'', [], ''c'']"
  "py_split (CHR '','') '',x'' = [[], ''x'']"
  "py_split (CHR '','') [] = [[]]"
  "py_split (CHR '','') ''203.0.113.5, 10.0.0.1'' = [''203.0.113.5'', '' 10.0.0.1'']"
  by simp_all

lemma py_strip_examples:
  "py_strip ''  a b  '' = ''a b''"
  "py_strip [] = []"
  "py_strip [CHR 0x09, CHR ''x'', CHR 0x0A] = ''x''"
  by code_simp+

lemma py_lower_examples:
  "py_lower ''Edg/99.0 (Windows NT)'' = ''edg/99.0 (windows nt)''"
  "py_lower [CHR 0xC9, CHR 0xD7, CHR 0xDF] = [CHR 0xE9, CHR 0xD7, CHR 0xDF]"
  by code_simp+

lemma parse_user_agent_examples:
  "parse_user_agent (Some ''Mozilla/5.0 (Windows NT 10.0) AppleWebKit/537.36 (KHTML, like Gecko) Chrome/99.0 Safari/537.36'')
     = \<lparr>ua_browser = ''Chrome'', ua_os = ''Windows''\<rparr>"
  "ua_os (parse_user_agent (Some ''Mozilla/5.0 (iPhone; CPU iPhone OS 15_0 like Mac OS X) AppleWebKit/605.1.15''))
     = ''iOS''"
  by code_simp+

section \<open>Facts about the handlers\<close>

lemma track_click_record_ip:
  "ip (track_click_record ops cfg env tok req) =
     (case (case x_forwarded_for req of Some h \<Rightarrow> Some h | None \<Rightarrow> remote_addr req) of
        None \<Rightarrow> None
      | Some s \<Rightarrow> if CHR '','' \<in> set s
                  then Some (py_strip (takeWhile (\<lambda>c. c \<noteq> CHR '','') s)) else Some s)"
  by (auto simp: track_click_record_def Let_def py_in_comma hd_py_split split: option.splits)

lemma image_tracker_record_ip:
  "ip (image_tracker_record ops cfg env tok req) =
     (case (case x_forwarded_for req of Some h \<Rightarrow> Some h | None \<Rightarrow> remote_addr req) of
        None \<Rightarrow> None
      | Some s \<Rightarrow> if CHR '','' \<in> set s
                  then Some (py_strip (takeWhile (\<lambda>c. c \<noteq> CHR '','') s)) else Some s)"
  by (auto simp: image_tracker_record_def Let_def py_in_comma hd_py_split split: option.splits)

lemma takeWhile_first_entry:
  "sep \<notin> set entry \<Longrightarrow> takeWhile (\<lambda>c. c \<noteq> sep) (entry @ sep # rest) = entry"
  by (auto simp: takeWhile_tail)

lemma track_click_record_url:
  "google_maps_url (track_click_record ops cfg env tok req) =
     (let r = track_click_record ops cfg env tok req
      in if isinstance_int_float (lat r) \<or> isinstance_int_float (lon r)
         then (case py_float ops (lat r) of
                 Inl _ \<Rightarrow> None
               | Inr lat_f \<Rightarrow>
                   (case py_float ops (lon r) of
                      Inl _ \<Rightarrow> None
                    | Inr lon_f \<Rightarrow>
                        Some (''https://www.google.com/maps?q='' @ format_float ops lat_f
                              @ '','' @ format_float ops lon_f)))
         else None)"
  by (simp add: track_click_record_def Let_def split: sum.splits)

lemma records_agree:
  "image_tracker_record ops cfg env tok req = track_click_record ops cfg env tok req"
  by (simp add: image_tracker_record_def track_click_record_def)




lemma redirect_newline_request:
  "redirect (py_or (arg_next newline_request) (default_target cfg)) = Inl ValueError"
  by (simp add: newline_request_def py_or_def redirect_def)

lemma track_click_result:
  "track_click ops cfg env tok req st =
     (if load_succeeds env \<and> save_succeeds env
      then Inr (redirect (py_or (arg_next req) (default_target cfg)),
                st(visits_path cfg :=
                     st (visits_path cfg) @ [track_click_record ops cfg env tok req]))
      else Inl StorageError)"
  by (simp add: track_click_def load_visits_def save_visits_def Let_def)

lemma image_tracker_result:
  "image_tracker ops cfg env tok req st =
     (if load_succeeds env \<and> save_succeeds env
      then Inr (Inr (RenderTemplate ''image_page.html''
                       (py_or (arg_src req)
                          ''https://via.placeholder.com/800x500.png?text=Image'')),
                st(visits_path cfg :=
                     st (visits_path cfg) @ [image_tracker_record ops cfg env tok req]))
      else Inl StorageError)"
  by (simp add: image_tracker_def load_visits_def save_visits_def Let_def)

lemma serve_result:
  "serve ops cfg h st =
     (if load_succeeds (hit_env h) \<and> save_succeeds (hit_env h)
      then Inr (case hit_endpoint h of
                  TrackClick \<Rightarrow>
                    redirect (py_or (arg_next (hit_request h)) (default_target cfg))
                | ImageTracker \<Rightarrow>
                    Inr (RenderTemplate ''image_page.html''
                           (py_or (arg_src (hit_request h))
                              ''https://via.placeholder.com/800x500.png?text=Image'')),
                st(visits_path cfg := st (visits_path cfg) @ [hit_record ops cfg h]))
      else Inl StorageError)"
  by (simp add: serve_def hit_record_def track_click_result image_tracker_result
        split: endpoint.splits)

lemma serve_serially_appends:
  "\<forall>h \<in> set hs. load_succeeds (hit_env h) \<and> save_succeeds (hit_env h) \<Longrightarrow>
     serve_serially ops cfg hs st =
       Inr (st(visits_path cfg := st (visits_path cfg) @ map (hit_record ops cfg) hs))"
proof (induction hs arbitrary: st)
  case Nil
  show ?case by simp
next
  case (Cons h hs)
  from Cons.prems have ok: "load_succeeds (hit_env h) \<and> save_succeeds (hit_env h)"
    and rest: "\<forall>h \<in> set hs. load_succeeds (hit_env h) \<and> save_succeeds (hit_env h)"
    by simp_all
  let ?st1 = "st(visits_path cfg := st (visits_path cfg) @ [hit_record ops cfg h])"
  have "serve_serially ops cfg (h # hs) st = serve_serially ops cfg hs ?st1"
    using ok by (simp add: serve_result)
  also have "\<dots> = Inr (?st1(visits_path cfg :=
                      ?st1 (visits_path cfg) @ map (hit_record ops cfg) hs))"
    using rest by (rule Cons.IH)
  also have "\<dots> = Inr (st(visits_path cfg :=
                      st (visits_path cfg) @ map (hit_record ops cfg) (h # hs)))"
    by simp
  finally show ?case .
qed

lemma serve_serially_fails:
  "\<not> (\<forall>h \<in> set hs. load_succeeds (hit_env h) \<and> save_succeeds (hit_env h)) \<Longrightarrow>
     serve_serially ops cfg hs st = Inl StorageError"
proof (induction hs arbitrary: st)
  case Nil
  then show ?case by simp
next
  case (Cons h hs)
  show ?case
  proof (cases "load_succeeds (hit_env h) \<and> save_succeeds (hit_env h)")
    case True
    with Cons.prems
    have "\<not> (\<forall>h \<in> set hs. load_succeeds (hit_env h) \<and> save_succeeds (hit_env h))"
      by simp
    then have "serve_serially ops cfg hs
                 (st(visits_path cfg := st (visits_path cfg) @ [hit_record ops cfg h]))
               = Inl StorageError"
      by (rule Cons.IH)
    with True show ?thesis by (simp add: serve_result)
  next
    case False
    then show ?thesis by (auto simp: serve_result)
  qed
qed

section \<open>The claims\<close>

subsection \<open>C1: when the map link is present\<close>

text \<open>
  C1 as the spec words it: the link is present if and only if both coordinates parse as
  finite numbers. The handlers do otherwise at two inputs. Coordinates that arrive as the
  JSON strings \<^verbatim>\<open>"48.85"\<close> and \<^verbatim>\<open>"2.35"\<close> parse as finite numbers, yet neither is an
  \<^verbatim>\<open>int\<close> or a \<^verbatim>\<open>float\<close>, the guard of line 77 is false and the link stays \<^verbatim>\<open>None\<close>.
  A latitude that arrives as the float NaN is not finite, yet \<^verbatim>\<open>float\<close> accepts it and
  the link is built.
\<close>

theorem maps_url_counterexample:
  "\<not> (google_maps_url (track_click_record cpython_table demo_config
          (demo_env (Some [''lat'' \<mapsto> PStr ''48.85'', ''lon'' \<mapsto> PStr ''2.35'']))
          ''tok'' demo_request) \<noteq> None
       \<longleftrightarrow> parses_as_finite_number cpython_table (PStr ''48.85'')
            \<and> parses_as_finite_number cpython_table (PStr ''2.35''))
   \<and> \<not> (google_maps_url (track_click_record cpython_table demo_config
          (demo_env (Some [''lat'' \<mapsto> PFloat 0x7FF8000000000000,
                           ''lon'' \<mapsto> PFloat 0x4002CCCCCCCCCCCD]))
          ''tok'' demo_request) \<noteq> None
       \<longleftrightarrow> parses_as_finite_number cpython_table (PFloat 0x7FF8000000000000)
            \<and> parses_as_finite_number cpython_table (PFloat 0x4002CCCCCCCCCCCD))"
  by (simp add: track_click_record_def Let_def dict_get_def isinstance_int_float_def
        parses_as_finite_number_def py_float_def cpython_table_def demo_env_def
        demo_config_def is_finite_def)

text \<open>
  C1, amended: in the record of either endpoint the link is present if and only if at
  least one of \<open>lat\<close> and \<open>lon\<close> is an \<^verbatim>\<open>int\<close> or a \<^verbatim>\<open>float\<close> and \<^verbatim>\<open>float\<close> accepts
  both of them; whether the results are finite is not looked at. A link that is present
  is the text \<^verbatim>\<open>https://www.google.com/maps?q=\<close> followed by the two converted values as
  an f-string prints them, with a comma in between.
\<close>

theorem maps_url_present_iff:
  "(google_maps_url (track_click_record ops cfg env tok req) \<noteq> None \<longleftrightarrow>
      (isinstance_int_float (lat (track_click_record ops cfg env tok req))
       \<or> isinstance_int_float (lon (track_click_record ops cfg env tok req)))
      \<and> (\<exists>f. py_float ops (lat (track_click_record ops cfg env tok req)) = Inr f)
      \<and> (\<exists>g. py_float ops (lon (track_click_record ops cfg env tok req)) = Inr g))
   \<and> (google_maps_url (image_tracker_record ops cfg env tok req) \<noteq> None \<longleftrightarrow>
      (isinstance_int_float (lat (image_tracker_record ops cfg env tok req))
       \<or> isinstance_int_float (lon (image_tracker_record ops cfg env tok req)))
      \<and> (\<exists>f. py_float ops (lat (image_tracker_record ops cfg env tok req)) = Inr f)
      \<and> (\<exists>g. py_float ops (lon (image_tracker_record ops cfg env tok req)) = Inr g))
   \<and> (\<forall>u. google_maps_url (track_click_record ops cfg env tok req) = Some u \<longrightarrow>
        (\<exists>f g. py_float ops (lat (track_click_record ops cfg env tok req)) = Inr f
             \<and> py_float ops (lon (track_click_record ops cfg env tok req)) = Inr g
             \<and> u = ''https://www.google.com/maps?q='' @ format_float ops f
                     @ '','' @ format_float ops g))
   \<and> (\<forall>u. google_maps_url (image_tracker_record ops cfg env tok req) = Some u \<longrightarrow>
        (\<exists>f g. py_float ops (lat (image_tracker_record ops cfg env tok req)) = Inr f
             \<and> py_float ops (lon (image_tracker_record ops cfg env tok req)) = Inr g
             \<and> u = ''https://www.google.com/maps?q='' @ format_float ops f
                     @ '','' @ format_float ops g))"
proof -
  let ?r = "track_click_record ops cfg env tok req"
  have 1: "google_maps_url ?r \<noteq> None \<longleftrightarrow>
      (isinstance_int_float (lat ?r) \<or> isinstance_int_float (lon ?r))
      \<and> (\<exists>f. py_float ops (lat ?r) = Inr f) \<and> (\<exists>g. py_float ops (lon ?r) = Inr g)"
    by (subst track_click_record_url) (auto simp: Let_def split: sum.splits)
  have 2: "\<forall>u. google_maps_url ?r = Some u \<longrightarrow>
        (\<exists>f g. py_float ops (lat ?r) = Inr f \<and> py_float ops (lon ?r) = Inr g
             \<and> u = ''https://www.google.com/maps?q='' @ format_float ops f
                     @ '','' @ format_float ops g)"
    by (subst track_click_record_url) (auto simp: Let_def split: sum.splits if_splits)
  from 1 2 show ?thesis by (simp only: records_agree)
qed

theorem maps_url_present_iff_witness:
  "google_maps_url (track_click_record cpython_table demo_config
      (demo_env (Some [''lat'' \<mapsto> PFloat 0x40486CCCCCCCCCCD,
                       ''lon'' \<mapsto> PFloat 0x4002CCCCCCCCCCCD]))
      ''tok'' demo_request) = Some ''https://www.google.com/maps?q=48.85,2.35''
   \<and> google_maps_url (image_tracker_record cpython_table demo_config
      (demo_env (Some [''lat'' \<mapsto> PFloat 0x40486CCCCCCCCCCD,
                       ''lon'' \<mapsto> PFloat 0x4002CCCCCCCCCCCD]))
      ''tok'' demo_request) = Some ''https://www.google.com/maps?q=48.85,2.35''"
proof -
  let ?env = "demo_env (Some [''lat'' \<mapsto> PFloat 0x40486CCCCCCCCCCD,
                              ''lon'' \<mapsto> PFloat 0x4002CCCCCCCCCCCD])"
  let ?r = "track_click_record cpython_table demo_config ?env ''tok'' demo_request"
  let ?r' = "image_tracker_record cpython_table demo_config ?env ''tok'' demo_request"
  have la: "lat ?r = PFloat 0x40486CCCCCCCCCCD" "lon ?r = PFloat 0x4002CCCCCCCCCCCD"
    by (simp_all add: track_click_record_def Let_def dict_get_def demo_env_def)
  have la': "lat ?r' = PFloat 0x40486CCCCCCCCCCD" "lon ?r' = PFloat 0x4002CCCCCCCCCCCD"
    by (simp_all add: image_tracker_record_def Let_def dict_get_def demo_env_def)
  have fl: "py_float cpython_table (PFloat 0x40486CCCCCCCCCCD) = Inr 0x40486CCCCCCCCCCD"
       "py_float cpython_table (PFloat 0x4002CCCCCCCCCCCD) = Inr 0x4002CCCCCCCCCCCD"
    by (simp_all add: py_float_def)
  have num: "isinstance_int_float (PFloat 0x40486CCCCCCCCCCD)"
    by (simp add: isinstance_int_float_def)
  have fmt: "''https://www.google.com/maps?q='' @ format_float cpython_table 0x40486CCCCCCCCCCD
               @ '','' @ format_float cpython_table 0x4002CCCCCCCCCCCD
             = ''https://www.google.com/maps?q=48.85,2.35''"
    by (simp add: cpython_table_def)
  note t = maps_url_present_iff [of cpython_table demo_config ?env "''tok''" demo_request]
  from t la fl num obtain u where u: "google_maps_url ?r = Some u" by auto
  from t la' fl num obtain u' where u': "google_maps_url ?r' = Some u'" by auto
  from t u la fl fmt have "u = ''https://www.google.com/maps?q=48.85,2.35''" by auto
  moreover from t u' la' fl fmt have "u' = ''https://www.google.com/maps?q=48.85,2.35''" by auto
  ultimately show ?thesis using u u' by simp
qed

subsection \<open>C2: a failing coercion is silent\<close>




subsection \<open>C3: Edge wins over Chrome and Safari\<close>

text \<open>
  C3: a user agent whose lower-cased form contains \<^verbatim>\<open>edg\<close> is classified as the browser
  \<^verbatim>\<open>Edge\<close>, whatever else it contains.
\<close>

theorem edg_gives_Edge:
  "py_in ''edg'' (py_lower ua) \<Longrightarrow> ua_browser (parse_user_agent (Some ua)) = ''Edge''"
proof -
  assume edg: "py_in ''edg'' (py_lower ua)"
  have "ua \<noteq> []"
  proof
    assume "ua = []"
    with edg show False by (simp add: py_lower_def)
  qed
  with edg show ?thesis by (simp add: parse_user_agent_def Let_def)
qed

theorem edg_gives_Edge_witness:
  "py_in ''edg'' (py_lower ''Mozilla/5.0 (Windows NT 10.0) AppleWebKit/537.36 (KHTML, like Gecko) Chrome/99.0 Safari/537.36 Edg/99.0'')
   \<and> py_in ''chrome'' (py_lower ''Mozilla/5.0 (Windows NT 10.0) AppleWebKit/537.36 (KHTML, like Gecko) Chrome/99.0 Safari/537.36 Edg/99.0'')
   \<and> py_in ''safari'' (py_lower ''Mozilla/5.0 (Windows NT 10.0) AppleWebKit/537.36 (KHTML, like Gecko) Chrome/99.0 Safari/537.36 Edg/99.0'')
   \<and> ua_browser (parse_user_agent (Some ''Mozilla/5.0 (Windows NT 10.0) AppleWebKit/537.36 (KHTML, like Gecko) Chrome/99.0 Safari/537.36 Edg/99.0'')) = ''Edge''"
proof -
  let ?ua = "''Mozilla/5.0 (Windows NT 10.0) AppleWebKit/537.36 (KHTML, like Gecko) Chrome/99.0 Safari/537.36 Edg/99.0''"
  have h: "py_in ''edg'' (py_lower ?ua)" by code_simp
  have c: "py_in ''chrome'' (py_lower ?ua)" by code_simp
  have s: "py_in ''safari'' (py_lower ?ua)" by code_simp
  from h c s edg_gives_Edge [OF h] show ?thesis by blast
qed

subsection \<open>C4: an absent or empty user agent\<close>

text \<open>
  C4: for an absent and for an empty user agent the classifier answers exactly
  \<^verbatim>\<open>Unknown\<close>/\<^verbatim>\<open>Unknown\<close>. A user agent that is not empty is never classified as
  \<^verbatim>\<open>Unknown\<close>, and one in which none of the patterns occurs is \<^verbatim>\<open>Other\<close>/\<^verbatim>\<open>Other\<close>.
\<close>

theorem unknown_for_absent_ua:
  "parse_user_agent None = \<lparr>ua_browser = ''Unknown'', ua_os = ''Unknown''\<rparr>
   \<and> parse_user_agent (Some []) = \<lparr>ua_browser = ''Unknown'', ua_os = ''Unknown''\<rparr>
   \<and> (ua \<noteq> [] \<longrightarrow>
        ua_browser (parse_user_agent (Some ua)) \<noteq> ''Unknown''
        \<and> ua_os (parse_user_agent (Some ua)) \<noteq> ''Unknown'')
   \<and> (ua \<noteq> []
        \<and> \<not> py_in ''edg'' (py_lower ua) \<and> \<not> py_in ''opr'' (py_lower ua)
        \<and> \<not> py_in ''opera'' (py_lower ua) \<and> \<not> py_in ''firefox'' (py_lower ua)
        \<and> \<not> py_in ''safari'' (py_lower ua)
        \<and> \<not> py_in ''windows'' (py_lower ua) \<and> \<not> py_in ''android'' (py_lower ua)
        \<and> \<not> py_in ''iphone'' (py_lower ua) \<and> \<not> py_in ''ipad'' (py_lower ua)
        \<and> \<not> py_in ''ios'' (py_lower ua) \<and> \<not> py_in ''mac os x'' (py_lower ua)
        \<and> \<not> py_in ''macintosh'' (py_lower ua) \<and> \<not> py_in ''linux'' (py_lower ua)
      \<longrightarrow> parse_user_agent (Some ua) = \<lparr>ua_browser = ''Other'', ua_os = ''Other''\<rparr>)"
proof (intro conjI impI)
  show "parse_user_agent None = \<lparr>ua_browser = ''Unknown'', ua_os = ''Unknown''\<rparr>"
    by (simp add: parse_user_agent_def)
  show "parse_user_agent (Some []) = \<lparr>ua_browser = ''Unknown'', ua_os = ''Unknown''\<rparr>"
    by (simp add: parse_user_agent_def)
next
  assume "ua \<noteq> []"
  then show "ua_browser (parse_user_agent (Some ua)) \<noteq> ''Unknown''"
    by (simp add: parse_user_agent_def Let_def)
next
  assume "ua \<noteq> []"
  then show "ua_os (parse_user_agent (Some ua)) \<noteq> ''Unknown''"
    by (simp add: parse_user_agent_def Let_def)
next
  assume "ua \<noteq> []
        \<and> \<not> py_in ''edg'' (py_lower ua) \<and> \<not> py_in ''opr'' (py_lower ua)
        \<and> \<not> py_in ''opera'' (py_lower ua) \<and> \<not> py_in ''firefox'' (py_lower ua)
        \<and> \<not> py_in ''safari'' (py_lower ua)
        \<and> \<not> py_in ''windows'' (py_lower ua) \<and> \<not> py_in ''android'' (py_lower ua)
        \<and> \<not> py_in ''iphone'' (py_lower ua) \<and> \<not> py_in ''ipad'' (py_lower ua)
        \<and> \<not> py_in ''ios'' (py_lower ua) \<and> \<not> py_in ''mac os x'' (py_lower ua)
        \<and> \<not> py_in ''macintosh'' (py_lower ua) \<and> \<not> py_in ''linux'' (py_lower ua)"
  then show "parse_user_agent (Some ua) = \<lparr>ua_browser = ''Other'', ua_os = ''Other''\<rparr>"
    by (simp add: parse_user_agent_def Let_def)
qed

theorem unknown_for_absent_ua_witness:
  "parse_user_agent None = \<lparr>ua_browser = ''Unknown'', ua_os = ''Unknown''\<rparr>
   \<and> parse_user_agent (Some []) = \<lparr>ua_browser = ''Unknown'', ua_os = ''Unknown''\<rparr>
   \<and> ''curl/8.0'' \<noteq> []
   \<and> parse_user_agent (Some ''curl/8.0'') = \<lparr>ua_browser = ''Other'', ua_os = ''Other''\<rparr>
   \<and> ua_browser (parse_user_agent (Some ''curl/8.0'')) \<noteq> ''Unknown''"
proof -
  have n: "\<not> py_in ''edg'' (py_lower ''curl/8.0'') \<and> \<not> py_in ''opr'' (py_lower ''curl/8.0'')
        \<and> \<not> py_in ''opera'' (py_lower ''curl/8.0'') \<and> \<not> py_in ''firefox'' (py_lower ''curl/8.0'')
        \<and> \<not> py_in ''safari'' (py_lower ''curl/8.0'')
        \<and> \<not> py_in ''windows'' (py_lower ''curl/8.0'') \<and> \<not> py_in ''android'' (py_lower ''curl/8.0'')
        \<and> \<not> py_in ''iphone'' (py_lower ''curl/8.0'') \<and> \<not> py_in ''ipad'' (py_lower ''curl/8.0'')
        \<and> \<not> py_in ''ios'' (py_lower ''curl/8.0'') \<and> \<not> py_in ''mac os x'' (py_lower ''curl/8.0'')
        \<and> \<not> py_in ''macintosh'' (py_lower ''curl/8.0'') \<and> \<not> py_in ''linux'' (py_lower ''curl/8.0'')"
    by code_simp
  have ne: "''curl/8.0'' \<noteq> []" by simp
  from n ne unknown_for_absent_ua [of "''curl/8.0''"] show ?thesis by blast
qed

subsection \<open>C5: the first hop of a forwarding chain\<close>

text \<open>
  C5: when the forwarding header holds several hops separated by commas, the address of
  the record is the first entry, the text before the first comma, with the white space
  at its ends removed (\<open>py_strip_decompose\<close> and \<open>py_strip_ends\<close> say what \<open>py_strip\<close>
  removes). When no forwarding header is present, the address of the connection is
  used: it is the address of the record, after the same treatment of a comma, so for an
  address without a comma, as every IP address is, it is the record's address as it
  stands; and with neither source the record has no address.
\<close>

theorem forwarded_first_hop:
  "(x_forwarded_for req = Some (entry @ '','' @ rest) \<and> CHR '','' \<notin> set entry \<longrightarrow>
      ip (track_click_record ops cfg env tok req) = Some (py_strip entry)
      \<and> ip (image_tracker_record ops cfg env tok req) = Some (py_strip entry))
   \<and> (x_forwarded_for req = None \<and> remote_addr req = Some addr \<longrightarrow>
      ip (track_click_record ops cfg env tok req)
        = Some (if CHR '','' \<in> set addr
                then py_strip (takeWhile (\<lambda>c. c \<noteq> CHR '','') addr) else addr)
      \<and> ip (image_tracker_record ops cfg env tok req)
        = Some (if CHR '','' \<in> set addr
                then py_strip (takeWhile (\<lambda>c. c \<noteq> CHR '','') addr) else addr))
   \<and> (x_forwarded_for req = None \<and> remote_addr req = None \<longrightarrow>
      ip (track_click_record ops cfg env tok req) = None
      \<and> ip (image_tracker_record ops cfg env tok req) = None)"
  by (simp add: track_click_record_ip image_tracker_record_ip takeWhile_first_entry)

theorem forwarded_first_hop_witness:
  "x_forwarded_for demo_request = Some (''203.0.113.5'' @ '','' @ '' 10.0.0.1'')
   \<and> CHR '','' \<notin> set ''203.0.113.5''
   \<and> ip (track_click_record cpython_table demo_config (demo_env None) ''tok'' demo_request)
       = Some ''203.0.113.5''
   \<and> ip (image_tracker_record cpython_table demo_config (demo_env None) ''tok'' demo_request)
       = Some ''203.0.113.5''
   \<and> ip (track_click_record cpython_table demo_config (demo_env None) ''tok''
          (demo_request\<lparr>x_forwarded_for := Some ('' 203.0.113.5  '' @ '','' @ ''10.0.0.1,10.0.0.2'')\<rparr>))
       = Some ''203.0.113.5''
   \<and> ip (track_click_record cpython_table demo_config (demo_env None) ''tok''
          (demo_request\<lparr>x_forwarded_for := None\<rparr>))
       = Some ''10.0.0.1''"
proof -
  let ?r2 = "demo_request\<lparr>x_forwarded_for := Some ('' 203.0.113.5  '' @ '','' @ ''10.0.0.1,10.0.0.2'')\<rparr>"
  let ?r3 = "demo_request\<lparr>x_forwarded_for := None\<rparr>"
  have s1: "py_strip ''203.0.113.5'' = ''203.0.113.5''" by code_simp
  have s2: "py_strip '' 203.0.113.5  '' = ''203.0.113.5''" by code_simp
  have a: "x_forwarded_for demo_request = Some (''203.0.113.5'' @ '','' @ '' 10.0.0.1'')"
    by (simp add: demo_request_def)
  have b: "CHR '','' \<notin> set ''203.0.113.5''" by simp
  have c: "CHR '','' \<notin> set '' 203.0.113.5  ''" by simp
  have d: "x_forwarded_for ?r2 = Some ('' 203.0.113.5  '' @ '','' @ ''10.0.0.1,10.0.0.2'')"
    by simp
  have e: "x_forwarded_for ?r3 = None \<and> remote_addr ?r3 = Some ''10.0.0.1''"
    by (simp add: demo_request_def)
  have f: "(if CHR '','' \<in> set ''10.0.0.1''
            then py_strip (takeWhile (\<lambda>c. c \<noteq> CHR '','') ''10.0.0.1'') else ''10.0.0.1'')
           = ''10.0.0.1''" by simp
  note t1 = forwarded_first_hop [where req = demo_request and entry = "''203.0.113.5''"
          and rest = "'' 10.0.0.1''" and ops = cpython_table and cfg = demo_config
          and env = "demo_env None" and tok = "''tok''", THEN conjunct1, rule_format]
  note t2 = forwarded_first_hop [where req = ?r2
          and entry = "'' 203.0.113.5  ''" and rest = "''10.0.0.1,10.0.0.2''"
          and ops = cpython_table and cfg = demo_config
          and env = "demo_env None" and tok = "''tok''", THEN conjunct1, rule_format]
  note t3 = forwarded_first_hop [where req = ?r3
          and addr = "''10.0.0.1''" and ops = cpython_table and cfg = demo_config
          and env = "demo_env None" and tok = "''tok''",
          THEN conjunct2, THEN conjunct1, rule_format]
  have 1: "ip (track_click_record cpython_table demo_config (demo_env None) ''tok'' demo_request)
             = Some ''203.0.113.5''
           \<and> ip (image_tracker_record cpython_table demo_config (demo_env None) ''tok''
                  demo_request) = Some ''203.0.113.5''"
    using t1 [OF conjI [OF a b]] by (simp only: s1)
  have 2: "ip (track_click_record cpython_table demo_config (demo_env None) ''tok'' ?r2)
             = Some ''203.0.113.5''"
    using t2 [OF conjI [OF d c]] by (simp only: s2)
  have 3: "ip (track_click_record cpython_table demo_config (demo_env None) ''tok'' ?r3)
             = Some ''10.0.0.1''"
    using t3 [OF e] by (simp only: f)
  from a b 1 2 3 show ?thesis by blast
qed

subsection \<open>C6: a geo lookup without an answer\<close>




subsection \<open>C7: recordings served serially only append\<close>

text \<open>
  C7: when every one of the hits served serially is recorded successfully, the stored
  collection is the collection from before followed by the records of the hits in call
  order: the earlier records are unchanged, the collection grows by the number of hits,
  and from an empty collection it holds exactly that many records. Every single
  recording that succeeds leaves the collection from before with one record appended.
  The recordings all succeed whenever the storage operations do.
\<close>

theorem serial_recordings_append:
  "(serve_serially ops cfg hs st = Inr st' \<longrightarrow>
      st' (visits_path cfg) = st (visits_path cfg) @ map (hit_record ops cfg) hs
      \<and> length (st' (visits_path cfg)) = length (st (visits_path cfg)) + length hs
      \<and> (st (visits_path cfg) = [] \<longrightarrow> length (st' (visits_path cfg)) = length hs))
   \<and> ((\<forall>h \<in> set hs. load_succeeds (hit_env h) \<and> save_succeeds (hit_env h)) \<longrightarrow>
        (\<exists>st'. serve_serially ops cfg hs st = Inr st'))
   \<and> (\<forall>h s resp s'. serve ops cfg h s = Inr (resp, s') \<longrightarrow>
        s' = s(visits_path cfg := s (visits_path cfg) @ [hit_record ops cfg h]))"
proof (intro conjI impI allI)
  assume run: "serve_serially ops cfg hs st = Inr st'"
  have ok: "\<forall>h \<in> set hs. load_succeeds (hit_env h) \<and> save_succeeds (hit_env h)"
  proof (rule ccontr)
    assume "\<not> ?thesis"
    then have "serve_serially ops cfg hs st = Inl StorageError"
      by (rule serve_serially_fails)
    with run show False by simp
  qed
  then have "serve_serially ops cfg hs st =
       Inr (st(visits_path cfg := st (visits_path cfg) @ map (hit_record ops cfg) hs))"
    by (rule serve_serially_appends)
  with run
  have st': "st' = st(visits_path cfg := st (visits_path cfg) @ map (hit_record ops cfg) hs)"
    by simp
  show 1: "st' (visits_path cfg) = st (visits_path cfg) @ map (hit_record ops cfg) hs"
    by (simp add: st')
  show "length (st' (visits_path cfg)) = length (st (visits_path cfg)) + length hs"
    by (simp add: 1)
  show "length (st' (visits_path cfg)) = length hs" if "st (visits_path cfg) = []"
    using that by (simp add: 1)
next
  assume "\<forall>h \<in> set hs. load_succeeds (hit_env h) \<and> save_succeeds (hit_env h)"
  then show "\<exists>st'. serve_serially ops cfg hs st = Inr st'"
    by (simp add: serve_serially_appends)
next
  fix h s resp s'
  assume "serve ops cfg h s = Inr (resp, s')"
  then show "s' = s(visits_path cfg := s (visits_path cfg) @ [hit_record ops cfg h])"
    by (simp add: serve_result split: if_splits)
qed

theorem serial_recordings_append_witness:
  "\<exists>st'. serve_serially cpython_table demo_config
            [demo_hit TrackClick ''a'', demo_hit ImageTracker ''b''] no_visits = Inr st'
         \<and> length (st' (visits_path demo_config)) = 2
         \<and> map token (st' (visits_path demo_config)) = [''a'', ''b'']"
proof -
  let ?hs = "[demo_hit TrackClick ''a'', demo_hit ImageTracker ''b'']"
  have ok: "\<forall>h \<in> set ?hs. load_succeeds (hit_env h) \<and> save_succeeds (hit_env h)"
    by (simp add: demo_hit_def demo_env_def)
  have "\<exists>st'. serve_serially cpython_table demo_config ?hs no_visits = Inr st'"
    using serial_recordings_append [of cpython_table demo_config ?hs no_visits,
            THEN conjunct2, THEN conjunct1] ok
    by (rule mp)
  then obtain st' where
    run: "serve_serially cpython_table demo_config ?hs no_visits = Inr st'" ..
  have "st' (visits_path demo_config)
          = no_visits (visits_path demo_config) @ map (hit_record cpython_table demo_config) ?hs"
    using serial_recordings_append [of cpython_table demo_config ?hs no_visits st',
            THEN conjunct1, THEN mp, OF run]
    by (rule conjunct1)
  moreover have "token (hit_record cpython_table demo_config (demo_hit TrackClick ''a'')) = ''a''"
    by (simp add: hit_record_def demo_hit_def track_click_record_def Let_def)
  moreover have "token (hit_record cpython_table demo_config (demo_hit ImageTracker ''b'')) = ''b''"
    by (simp add: hit_record_def demo_hit_def image_tracker_record_def Let_def)
  ultimately have "length (st' (visits_path demo_config)) = 2
         \<and> map token (st' (visits_path demo_config)) = [''a'', ''b'']"
    by (simp add: no_visits_def)
  with run show ?thesis by (intro exI [of _ st'] conjI) simp_all
qed

subsection \<open>C8: the redirect endpoint records, then redirects\<close>

text \<open>
  C8 as the spec words it: the response is a redirect to the \<^verbatim>\<open>next\<close> parameter the
  caller supplied, and to the configured default only when the parameter is absent. Two
  requests are answered otherwise. A request \<^verbatim>\<open>/t/tok?next=\<close> supplies the parameter with
  the empty text; \<^verbatim>\<open>"" or default_target\<close> is the default, so the redirect goes to the
  default \<^verbatim>\<open>https://example.com\<close> and not to the supplied value. A request
  \<^verbatim>\<open>/t/tok?next=/a%0Ab\<close> supplies a target with a line feed; the record is stored, and
  then \<^verbatim>\<open>redirect\<close> raises \<^verbatim>\<open>ValueError\<close> instead of returning a redirect.
\<close>

theorem redirect_empty_next_counterexample:
  "arg_next (demo_request\<lparr>arg_next := Some []\<rparr>) = Some []
   \<and> map_sum id fst (track_click cpython_table demo_config (demo_env None) ''tok''
          (demo_request\<lparr>arg_next := Some []\<rparr>) no_visits)
       = Inr (Inr (Redirect ''https://example.com''))
   \<and> map_sum id fst (track_click cpython_table demo_config (demo_env None) ''tok''
          (demo_request\<lparr>arg_next := Some []\<rparr>) no_visits)
       \<noteq> Inr (Inr (Redirect []))
   \<and> arg_next newline_request = Some [CHR ''/'', CHR ''a'', CHR 0x0A, CHR ''b'']
   \<and> map_sum id fst (track_click cpython_table demo_config (demo_env None) ''tok''
          newline_request no_visits)
       = Inr (Inl ValueError)
   \<and> map_sum id fst (track_click cpython_table demo_config (demo_env None) ''tok''
          newline_request no_visits)
       \<noteq> Inr (Inr (Redirect [CHR ''/'', CHR ''a'', CHR 0x0A, CHR ''b'']))"
  by (simp add: track_click_result redirect_newline_request py_or_def redirect_def
        demo_env_def demo_config_def newline_request_def)

text \<open>
  C8, amended: for every request to the redirect endpoint, the storage operations
  succeeding, exactly one record, its own, is appended to the stored collection before the
  response is produced, whatever the \<^verbatim>\<open>next\<close> parameter is and also without it; the
  record does not depend on that parameter. The target is the \<^verbatim>\<open>next\<close> parameter, or the
  configured default target when the parameter is absent or empty. When the target holds
  no carriage return and no line feed the response is a redirect to it; when it holds
  one, \<^verbatim>\<open>redirect\<close> raises \<^verbatim>\<open>ValueError\<close>, after the record has been appended.
\<close>

theorem redirect_after_recording:
  "(load_succeeds env \<and> save_succeeds env \<longrightarrow>
      (\<exists>outcome st'. track_click ops cfg env tok req st = Inr (outcome, st')))
   \<and> (\<forall>outcome st'. track_click ops cfg env tok req st = Inr (outcome, st') \<longrightarrow>
        st' = st(visits_path cfg :=
                   st (visits_path cfg) @ [track_click_record ops cfg env tok req])
        \<and> outcome =
            (let target = (case arg_next req of
                             None \<Rightarrow> default_target cfg
                           | Some u \<Rightarrow> if u = [] then default_target cfg else u)
             in if CHR 0x0D \<in> set target \<or> CHR 0x0A \<in> set target
                then Inl ValueError else Inr (Redirect target)))
   \<and> (\<forall>x. track_click_record ops cfg env tok (req\<lparr>arg_next := x\<rparr>)
          = track_click_record ops cfg env tok req)"
proof (intro conjI impI allI)
  assume "load_succeeds env \<and> save_succeeds env"
  then show "\<exists>outcome st'. track_click ops cfg env tok req st = Inr (outcome, st')"
    by (simp add: track_click_result)
next
  fix outcome st'
  assume r: "track_click ops cfg env tok req st = Inr (outcome, st')"
  then show "st' = st(visits_path cfg :=
                   st (visits_path cfg) @ [track_click_record ops cfg env tok req])"
    by (simp add: track_click_result split: if_splits)
  have t: "py_or (arg_next req) (default_target cfg)
             = (case arg_next req of
                  None \<Rightarrow> default_target cfg
                | Some u \<Rightarrow> if u = [] then default_target cfg else u)"
    by (simp add: py_or_def)
  from r have "outcome = redirect (py_or (arg_next req) (default_target cfg))"
    by (simp add: track_click_result split: if_splits)
  then show "outcome =
            (let target = (case arg_next req of
                             None \<Rightarrow> default_target cfg
                           | Some u \<Rightarrow> if u = [] then default_target cfg else u)
             in if CHR 0x0D \<in> set target \<or> CHR 0x0A \<in> set target
                then Inl ValueError else Inr (Redirect target))"
    by (simp only: t redirect_def Let_def)
next
  fix x
  show "track_click_record ops cfg env tok (req\<lparr>arg_next := x\<rparr>)
          = track_click_record ops cfg env tok req"
    by (simp add: track_click_record_def cong: option.case_cong)
qed

theorem redirect_after_recording_witness:
  "\<exists>st'. track_click cpython_table demo_config (demo_env None) ''tok'' demo_request no_visits
            = Inr (Inr (Redirect ''https://example.org/landing''), st')
         \<and> map token (st' (visits_path demo_config)) = [''tok'']"
proof -
  have ok: "load_succeeds (demo_env None) \<and> save_succeeds (demo_env None)"
    by (simp add: demo_env_def)
  note t = redirect_after_recording [of "demo_env None" cpython_table demo_config "''tok''"
              demo_request no_visits]
  have "\<exists>outcome st'. track_click cpython_table demo_config (demo_env None) ''tok''
                       demo_request no_visits = Inr (outcome, st')"
    using t [THEN conjunct1] ok by (rule mp)
  then obtain outcome st' where
    r: "track_click cpython_table demo_config (demo_env None) ''tok'' demo_request no_visits
          = Inr (outcome, st')"
    by (elim exE)
  note c = t [THEN conjunct2, THEN conjunct1, rule_format, OF r]
  have st': "st' = no_visits(visits_path demo_config :=
                   no_visits (visits_path demo_config)
                   @ [track_click_record cpython_table demo_config (demo_env None) ''tok''
                        demo_request])"
    using c by (rule conjunct1)
  have "outcome =
            (let target = (case arg_next demo_request of
                             None \<Rightarrow> default_target demo_config
                           | Some u \<Rightarrow> if u = [] then default_target demo_config else u)
             in if CHR 0x0D \<in> set target \<or> CHR 0x0A \<in> set target
                then Inl ValueError else Inr (Redirect target))"
    using c by (rule conjunct2)
  then have 1: "outcome = Inr (Redirect ''https://example.org/landing'')"
    by (simp add: demo_request_def)
  have 2: "map token (st' (visits_path demo_config)) = [''tok'']"
    by (simp add: st' no_visits_def track_click_record_def Let_def)
  from r 1 2 show ?thesis by (intro exI [of _ st'] conjI) simp_all
qed

subsection \<open>C9: the two copies of the pipeline agree\<close>

text \<open>
  C9: on the same token, request, geo answer and clock reading the redirect endpoint and
  the image endpoint build the same record, and they leave the storage in the same
  state, or fail with the same error.
\<close>

theorem endpoints_build_same_record:
  "track_click_record ops cfg env tok req = image_tracker_record ops cfg env tok req
   \<and> map_sum id snd (track_click ops cfg env tok req st)
       = map_sum id snd (image_tracker ops cfg env tok req st)"
  by (simp add: records_agree track_click_result image_tracker_result)

theorem endpoints_build_same_record_witness:
  "track_click_record cpython_table demo_config
       (demo_env (Some [''lat'' \<mapsto> PFloat 0x40486CCCCCCCCCCD, ''country'' \<mapsto> PStr ''France'']))
       ''tok'' demo_request
     = image_tracker_record cpython_table demo_config
       (demo_env (Some [''lat'' \<mapsto> PFloat 0x40486CCCCCCCCCCD, ''country'' \<mapsto> PStr ''France'']))
       ''tok'' demo_request
   \<and> map_sum id snd (track_click cpython_table demo_config (demo_env None) ''tok''
        demo_request no_visits)
     = map_sum id snd (image_tracker cpython_table demo_config (demo_env None) ''tok''
        demo_request no_visits)"
  using endpoints_build_same_record [of cpython_table demo_config
          "demo_env (Some [''lat'' \<mapsto> PFloat 0x40486CCCCCCCCCCD, ''country'' \<mapsto> PStr ''France''])"
          "''tok''" demo_request no_visits]
        endpoints_build_same_record [of cpython_table demo_config "demo_env None"
          "''tok''" demo_request no_visits]
  by blast

subsection \<open>C10: a single hop is taken verbatim\<close>

text \<open>
  C10: a forwarding header that is present and holds no comma is the address of the
  record as it stands; white space around it is kept, since the trimming sits behind
  the test for a comma.
\<close>

theorem single_hop_verbatim:
  "x_forwarded_for req = Some h \<Longrightarrow> CHR '','' \<notin> set h \<Longrightarrow>
     ip (track_click_record ops cfg env tok req) = Some h
     \<and> ip (image_tracker_record ops cfg env tok req) = Some h"
  by (simp add: track_click_record_ip image_tracker_record_ip)

theorem single_hop_verbatim_witness:
  "CHR '','' \<notin> set '' 203.0.113.5 ''
   \<and> ip (track_click_record cpython_table demo_config (demo_env None) ''tok''
          (demo_request\<lparr>x_forwarded_for := Some '' 203.0.113.5 ''\<rparr>)) = Some '' 203.0.113.5 ''
   \<and> ip (image_tracker_record cpython_table demo_config (demo_env None) ''tok''
          (demo_request\<lparr>x_forwarded_for := Some '' 203.0.113.5 ''\<rparr>)) = Some '' 203.0.113.5 ''
   \<and> py_strip '' 203.0.113.5 '' \<noteq> '' 203.0.113.5 ''"
proof -
  have a: "x_forwarded_for (demo_request\<lparr>x_forwarded_for := Some '' 203.0.113.5 ''\<rparr>)
             = Some '' 203.0.113.5 ''" by simp
  have b: "CHR '','' \<notin> set '' 203.0.113.5 ''" by simp
  have c: "py_strip '' 203.0.113.5 '' \<noteq> '' 203.0.113.5 ''" by code_simp
  from b c single_hop_verbatim [OF a b] show ?thesis by blast
qed

end
